theory Spec2Isabelle
  imports Main "HOL-Library.AList"
begin

section \<open>Core types (src/core/types.ts, src/core/entity.ts)\<close>

type_synonym SystemId = string
type_synonym EntityId = nat
type_synonym ComponentId = nat

datatype Permission = READ | WRITE | DELETE | EXECUTE | DELEGATE | TRANSFER

text \<open>An entity handle: \<^verbatim>\<open>{ id, generation }\<close>.\<close>

record Entity =
  ent_id :: EntityId
  generation :: nat

record EntityOwnership =
  owner :: SystemId
  permissions :: "Permission list"
  delegates :: "SystemId list"
  createdBy :: SystemId
  createdAt :: nat

text \<open>\<^verbatim>\<open>CreateEntityOptions\<close>: both fields are optional in the source.\<close>

record CreateEntityOptions =
  opt_owner :: "SystemId option"
  opt_permissions :: "Permission list option"

text \<open>
  Every \<^verbatim>\<open>throw new Error(...)\<close> of the modelled code is a constructor here; the
  arguments are the values the message interpolates. \<open>Thrown\<close> is an \<^verbatim>\<open>Error\<close> raised by
  code outside the model (an event handler, the world, the compiler, the sandbox),
  \<open>NonErrorValue\<close> a thrown value that is not an \<^verbatim>\<open>Error\<close>, and \<open>FailedToLoad\<close> the
  error that the loader wraps around another one. JavaScript numbers are integers
  (\<open>int\<close>, or \<open>nat\<close> for ids, counters and times) throughout.
\<close>

datatype error =
    EntityNotFound EntityId
  | GrantDenied SystemId EntityId
  | RevokeDenied SystemId EntityId
  | NotOwner SystemId EntityId
  | AccessDenied SystemId Permission EntityId
  | GasLimitExceeded int int
  | Thrown string
  | SchemaVersionInvalid
  | SchemaNoFields
  | InvalidFieldType string string
  | MinGreaterThanMax string
  | PatternOnNonString string
  | NestedOnNonContainer string
  | ConstraintNoField
  | ConstraintUnknownField string
  | InvalidConstraintType string
  | CustomWithoutValidator
  | MaxSizeInvalid
  | ComponentTypeAlreadyRegistered string
  | NegativeComponentId int
  | NegativeDynamicIdStart int
  | VersionNotGreater string int int
  | NameConflict string SystemId
  | ComponentNotFound string SystemId
  | SourceTooLong nat nat
  | BlockedPattern string
  | DangerousKeyword string
  | PrototypeManipulation
  | ConstructorAccess
  | SyntaxErrors "string list"
  | NoValidSystemDefinition
  | NonErrorValue string
  | FailedToLoad error

text \<open>
  A method that may throw after mutating its object returns both the outcome
  (\<open>Inl\<close> the thrown error) and the object as the call leaves it.
\<close>

type_synonym ('a, 's) outcome = "(error + 'a) \<times> 's"

section \<open>Entity access control (src/core/system-loader/entity-access-control.ts)\<close>

record EntityAccessControl =
  entityOwnership :: "EntityId \<rightharpoonup> EntityOwnership"
  systemEntityCounts :: "SystemId \<rightharpoonup> nat"

definition newEntityAccessControl :: EntityAccessControl where
  "newEntityAccessControl = \<lparr>entityOwnership = Map.empty, systemEntityCounts = Map.empty\<rparr>"

text \<open>
  \<^verbatim>\<open>options.owner || systemId\<close>: an absent or empty owner string is falsy.
  \<^verbatim>\<open>options.permissions || [READ, WRITE, DELETE]\<close>: any array, also an empty one, is truthy.
  The parameter \<open>now\<close> is the value of \<^verbatim>\<open>Date.now()\<close>.
\<close>

definition registerEntity ::
  "Entity \<Rightarrow> SystemId \<Rightarrow> CreateEntityOptions \<Rightarrow> nat \<Rightarrow> EntityAccessControl \<Rightarrow> EntityAccessControl" where
  "registerEntity entity systemId options now acl =
     (let ownership = \<lparr>
            owner = (case opt_owner options of
                       None \<Rightarrow> systemId
                     | Some ow \<Rightarrow> if ow = [] then systemId else ow),
            permissions = (case opt_permissions options of
                       None \<Rightarrow> [READ, WRITE, DELETE]
                     | Some ps \<Rightarrow> ps),
            delegates = [],
            createdBy = systemId,
            createdAt = now\<rparr>;
          currentCount = (case systemEntityCounts acl systemId of None \<Rightarrow> 0 | Some c \<Rightarrow> c)
      in acl\<lparr>entityOwnership := (entityOwnership acl)(ent_id entity \<mapsto> ownership),
             systemEntityCounts := (systemEntityCounts acl)(systemId \<mapsto> currentCount + 1)\<rparr>)"

definition unregisterEntity :: "Entity \<Rightarrow> EntityAccessControl \<Rightarrow> EntityAccessControl" where
  "unregisterEntity entity acl =
     (case entityOwnership acl (ent_id entity) of
        None \<Rightarrow> acl
      | Some ownership \<Rightarrow>
          (let currentCount =
                 (case systemEntityCounts acl (createdBy ownership) of None \<Rightarrow> 0 | Some c \<Rightarrow> c);
               counts = (if currentCount > 0
                         then (systemEntityCounts acl)(createdBy ownership \<mapsto> currentCount - 1)
                         else systemEntityCounts acl)
           in acl\<lparr>entityOwnership := (entityOwnership acl)(ent_id entity := None),
                  systemEntityCounts := counts\<rparr>))"

definition hasPermission ::
  "Entity \<Rightarrow> SystemId \<Rightarrow> Permission \<Rightarrow> EntityAccessControl \<Rightarrow> bool" where
  "hasPermission entity systemId permission acl =
     (case entityOwnership acl (ent_id entity) of
        None \<Rightarrow> False
      | Some ownership \<Rightarrow>
          if owner ownership = systemId then True
          else if systemId \<in> set (delegates ownership)
               then permission \<in> set (permissions ownership)
               else False)"

text \<open>The loop of \<^verbatim>\<open>grantAccess\<close> that pushes every permission not yet present.\<close>

fun unionPermissions :: "Permission list \<Rightarrow> Permission list \<Rightarrow> Permission list" where
  "unionPermissions existing [] = existing"
| "unionPermissions existing (p # ps) =
     unionPermissions (if p \<in> set existing then existing else existing @ [p]) ps"

definition grantAccess ::
  "Entity \<Rightarrow> SystemId \<Rightarrow> SystemId \<Rightarrow> Permission list \<Rightarrow> EntityAccessControl
     \<Rightarrow> (unit, EntityAccessControl) outcome" where
  "grantAccess entity granter targetSystem perms acl =
     (case entityOwnership acl (ent_id entity) of
        None \<Rightarrow> (Inl (EntityNotFound (ent_id entity)), acl)
      | Some ownership \<Rightarrow>
          if owner ownership \<noteq> granter \<and>
             \<not> (granter \<in> set (delegates ownership) \<and> DELEGATE \<in> set (permissions ownership))
          then (Inl (GrantDenied granter (ent_id entity)), acl)
          else
            (let ds = (if targetSystem \<notin> set (delegates ownership)
                       then delegates ownership @ [targetSystem]
                       else delegates ownership);
                 ps = unionPermissions (permissions ownership) perms
             in (Inr (),
                 acl\<lparr>entityOwnership := (entityOwnership acl)
                        (ent_id entity \<mapsto> ownership\<lparr>permissions := ps, delegates := ds\<rparr>)\<rparr>)))"

text \<open>
  \<^verbatim>\<open>indexOf\<close> followed by \<^verbatim>\<open>splice(index, 1)\<close> removes the first occurrence only:
  \<^const>\<open>remove1\<close>.
\<close>

definition revokeAccess ::
  "Entity \<Rightarrow> SystemId \<Rightarrow> SystemId \<Rightarrow> EntityAccessControl \<Rightarrow> (unit, EntityAccessControl) outcome" where
  "revokeAccess entity revoker targetSystem acl =
     (case entityOwnership acl (ent_id entity) of
        None \<Rightarrow> (Inl (EntityNotFound (ent_id entity)), acl)
      | Some ownership \<Rightarrow>
          if owner ownership \<noteq> revoker
          then (Inl (RevokeDenied revoker (ent_id entity)), acl)
          else (Inr (),
                acl\<lparr>entityOwnership := (entityOwnership acl)
                       (ent_id entity \<mapsto>
                          ownership\<lparr>delegates := remove1 targetSystem (delegates ownership)\<rparr>)\<rparr>))"

definition transferOwnership ::
  "Entity \<Rightarrow> SystemId \<Rightarrow> SystemId \<Rightarrow> EntityAccessControl \<Rightarrow> (unit, EntityAccessControl) outcome" where
  "transferOwnership entity currentOwner newOwner acl =
     (case entityOwnership acl (ent_id entity) of
        None \<Rightarrow> (Inl (EntityNotFound (ent_id entity)), acl)
      | Some ownership \<Rightarrow>
          if owner ownership \<noteq> currentOwner
          then (Inl (NotOwner currentOwner (ent_id entity)), acl)
          else (Inr (),
                acl\<lparr>entityOwnership := (entityOwnership acl)
                       (ent_id entity \<mapsto>
                          ownership\<lparr>owner := newOwner,
                                    delegates := remove1 newOwner (delegates ownership)\<rparr>)\<rparr>))"


text \<open>
  \<^verbatim>\<open>cleanupSystemEntities\<close>: entities owned or created by the system are deleted, the
  system is spliced out of the delegate list of every other entity.
\<close>

definition cleanupSystemEntities :: "SystemId \<Rightarrow> EntityAccessControl \<Rightarrow> EntityAccessControl" where
  "cleanupSystemEntities systemId acl =
     acl\<lparr>entityOwnership :=
            (\<lambda>entityId. case entityOwnership acl entityId of
                 None \<Rightarrow> None
               | Some ownership \<Rightarrow>
                   if owner ownership = systemId \<or> createdBy ownership = systemId then None
                   else Some (ownership\<lparr>delegates := remove1 systemId (delegates ownership)\<rparr>)),
          systemEntityCounts := (systemEntityCounts acl)(systemId := None)\<rparr>"

definition clearAccessControl :: "EntityAccessControl \<Rightarrow> EntityAccessControl" where
  "clearAccessControl acl = acl\<lparr>entityOwnership := Map.empty, systemEntityCounts := Map.empty\<rparr>"

text \<open>The states of the access-control table that its own methods can produce.\<close>

inductive reachable_acl :: "EntityAccessControl \<Rightarrow> bool" where
  reach_new: "reachable_acl newEntityAccessControl"
| reach_register: "reachable_acl acl \<Longrightarrow> reachable_acl (registerEntity e s opts now acl)"
| reach_unregister: "reachable_acl acl \<Longrightarrow> reachable_acl (unregisterEntity e acl)"
| reach_grant: "reachable_acl acl \<Longrightarrow> reachable_acl (snd (grantAccess e g t ps acl))"
| reach_revoke: "reachable_acl acl \<Longrightarrow> reachable_acl (snd (revokeAccess e r t acl))"
| reach_transfer: "reachable_acl acl \<Longrightarrow> reachable_acl (snd (transferOwnership e c n acl))"
| reach_cleanup: "reachable_acl acl \<Longrightarrow> reachable_acl (cleanupSystemEntities s acl)"
| reach_clear: "reachable_acl acl \<Longrightarrow> reachable_acl (clearAccessControl acl)"

section \<open>Gas tracker (src/core/system-loader/gas-tracker.ts)\<close>

text \<open>The keys of \<^verbatim>\<open>GasConfig['gasCosts']\<close>.\<close>

datatype GasOperation =
    OpEntityQuery | OpComponentAccess | OpComponentUpdate | OpEntityCreate | OpEntityDestroy
  | OpIteration | OpDefineComponent | OpAddComponent | OpUpdateComponent | OpRemoveComponent
  | OpEventSubscribe | OpEventEmit | OpCrossSystemCall

record GasCosts =
  entityQuery :: int
  componentAccess :: int
  componentUpdate :: int
  entityCreate :: int
  entityDestroy :: int
  iteration :: int
  defineComponentCost :: int
  addComponentCost :: int
  updateComponentCost :: int
  removeComponentCost :: int
  eventSubscribe :: int
  eventEmit :: int
  crossSystemCall :: int

record GasConfig =
  maxGas :: int
  gasCosts :: GasCosts


text \<open>\<^verbatim>\<open>this.config.gasCosts[operation]\<close>\<close>

fun gasCostOf :: "GasCosts \<Rightarrow> GasOperation \<Rightarrow> int" where
  "gasCostOf c OpEntityQuery = entityQuery c"
| "gasCostOf c OpComponentAccess = componentAccess c"
| "gasCostOf c OpComponentUpdate = componentUpdate c"
| "gasCostOf c OpEntityCreate = entityCreate c"
| "gasCostOf c OpEntityDestroy = entityDestroy c"
| "gasCostOf c OpIteration = iteration c"
| "gasCostOf c OpDefineComponent = defineComponentCost c"
| "gasCostOf c OpAddComponent = addComponentCost c"
| "gasCostOf c OpUpdateComponent = updateComponentCost c"
| "gasCostOf c OpRemoveComponent = removeComponentCost c"
| "gasCostOf c OpEventSubscribe = eventSubscribe c"
| "gasCostOf c OpEventEmit = eventEmit c"
| "gasCostOf c OpCrossSystemCall = crossSystemCall c"

record GasTracker =
  gasUsed :: int
  config :: GasConfig


text \<open>
  \<^verbatim>\<open>consumeGas\<close> adds the cost first and compares afterwards, so the tracker keeps
  the new total also when it throws.
\<close>

definition consumeGas ::
  "GasOperation \<Rightarrow> int option \<Rightarrow> GasTracker \<Rightarrow> (unit, GasTracker) outcome" where
  "consumeGas operation amount tr =
     (let cost = (case amount of Some a \<Rightarrow> a | None \<Rightarrow> gasCostOf (gasCosts (config tr)) operation);
          tr' = tr\<lparr>gasUsed := gasUsed tr + cost\<rparr>
      in if gasUsed tr' > maxGas (config tr')
         then (Inl (GasLimitExceeded (gasUsed tr') (maxGas (config tr'))), tr')
         else (Inr (), tr'))"

definition getGasUsed :: "GasTracker \<Rightarrow> int" where
  "getGasUsed tr = gasUsed tr"

definition getRemainingGas :: "GasTracker \<Rightarrow> int" where
  "getRemainingGas tr = max 0 (maxGas (config tr) - gasUsed tr)"

definition canAfford :: "GasOperation \<Rightarrow> int option \<Rightarrow> GasTracker \<Rightarrow> bool" where
  "canAfford operation amount tr =
     (let cost = (case amount of Some a \<Rightarrow> a | None \<Rightarrow> gasCostOf (gasCosts (config tr)) operation)
      in gasUsed tr + cost \<le> maxGas (config tr))"



section \<open>Event system (src/core/system-loader/event-system.ts)\<close>

text \<open>\<^verbatim>\<open>metadata\<close> is \<^verbatim>\<open>{ broadcast: true }\<close> or undefined: the flag \<open>ev_broadcast\<close>.\<close>

record 'd SystemEvent =
  ev_type :: string
  ev_data :: 'd
  emitter :: SystemId
  timestamp :: nat
  ev_broadcast :: bool


text \<open>
  A handler is code of the subscribing program: it may change that program's state
  (the type \<open>'h\<close>) and it may throw, keeping the changes it made. A handler that calls
  back into the event system while an event is being delivered is not modelled.
\<close>

type_synonym ('d, 'h) EventHandler = "'d SystemEvent \<Rightarrow> 'h \<Rightarrow> (unit, 'h) outcome"

record ('d, 'h) EventSubscription =
  sub_id :: nat
  sub_systemId :: SystemId
  sub_eventType :: string
  handler :: "('d, 'h) EventHandler"
  sub_createdAt :: nat

text \<open>
  The subscription id \<^verbatim>\<open>`sub_${n}`\<close> is represented by its number \<open>n\<close>.
  \<open>console\<close> collects the calls of \<^verbatim>\<open>console.error\<close>: the subscriber and what it threw.
\<close>

record ('d, 'h) EventSystem =
  subscriptions :: "string \<rightharpoonup> ('d, 'h) EventSubscription list"
  systemSubscriptions :: "SystemId \<rightharpoonup> nat set"
  eventHistory :: "string \<rightharpoonup> 'd SystemEvent list"
  maxEventHistory :: nat
  nextSubscriptionId :: nat
  console :: "(SystemId \<times> error) list"



definition getEventSubscribers :: "string \<Rightarrow> ('d, 'h) EventSystem \<Rightarrow> SystemId list" where
  "getEventSubscribers eventType es =
     map sub_systemId (case subscriptions es eventType of None \<Rightarrow> [] | Some l \<Rightarrow> l)"





section \<open>Schema validator (src/core/system-loader/component-schema-validator.ts)\<close>

text \<open>
  The type \<open>'v\<close> is the type of component data values. A \<^verbatim>\<open>RegExp\<close> is represented by its
  \<^verbatim>\<open>test\<close> function. \<^verbatim>\<open>fields\<close> is an object: its own entries in key order;
  \<^verbatim>\<open>fields[name]\<close> is a lookup among them (properties inherited from
  \<^verbatim>\<open>Object.prototype\<close> are left out). Versions and bounds are integers in the model.
\<close>

datatype 'v Constraint = Constraint
  (c_type: string) (c_field: string) (c_value: "'v option") (c_validator: "('v \<Rightarrow> bool) option")

datatype 'v FieldDefinition = FieldDefinition
  (fd_type: string) (fd_required: "bool option") (fd_min: "int option") (fd_max: "int option")
  (fd_pattern: "(string \<Rightarrow> bool) option") (fd_nested: "'v ComponentSchema option")
and 'v ComponentSchema = ComponentSchema
  (version: int) (fields: "(string \<times> 'v FieldDefinition) list")
  (constraints: "'v Constraint list option") (maxSize: "int option")

definition validateConstraint ::
  "'v Constraint \<Rightarrow> (string \<times> 'v FieldDefinition) list \<Rightarrow> error + unit" where
  "validateConstraint constraint flds =
     (if c_field constraint = [] then Inl ConstraintNoField
      else if map_of flds (c_field constraint) = None
        then Inl (ConstraintUnknownField (c_field constraint))
      else if c_type constraint \<notin> set [''unique'', ''range'', ''pattern'', ''custom'']
        then Inl (InvalidConstraintType (c_type constraint))
      else if c_type constraint = ''custom'' \<and> c_validator constraint = None
        then Inl CustomWithoutValidator
      else Inr ())"

fun validateConstraints ::
  "'v Constraint list \<Rightarrow> (string \<times> 'v FieldDefinition) list \<Rightarrow> error + unit" where
  "validateConstraints [] flds = Inr ()"
| "validateConstraints (c # cs) flds =
     (case validateConstraint c flds of Inl e \<Rightarrow> Inl e | Inr u \<Rightarrow> validateConstraints cs flds)"

text \<open>
  The \<^verbatim>\<open>typeof\<close> tests of the source hold by typing here. The order of the checks is the
  source's: version, fields present, each field definition, constraints, size cap.
\<close>

fun validateSchema :: "'v ComponentSchema \<Rightarrow> error + unit"
and validateFieldDefinition :: "string \<Rightarrow> 'v FieldDefinition \<Rightarrow> error + unit"
and validateFieldDefinitions :: "(string \<times> 'v FieldDefinition) list \<Rightarrow> error + unit" where
  "validateSchema (ComponentSchema ver flds cons msize) =
     (if ver < 1 then Inl SchemaVersionInvalid
      else if flds = [] then Inl SchemaNoFields
      else case validateFieldDefinitions flds of
        Inl e \<Rightarrow> Inl e
      | Inr u \<Rightarrow>
         (case (case cons of None \<Rightarrow> Inr () | Some cs \<Rightarrow> validateConstraints cs flds) of
            Inl e \<Rightarrow> Inl e
          | Inr u \<Rightarrow>
             (case msize of
                None \<Rightarrow> Inr ()
              | Some m \<Rightarrow> if m \<le> 0 then Inl MaxSizeInvalid else Inr ())))"
| "validateFieldDefinition fieldName (FieldDefinition ty req mn mx pat nested) =
     (if ty \<notin> set [''number'', ''string'', ''boolean'', ''object'', ''array'']
        then Inl (InvalidFieldType ty fieldName)
      else if (case (mn, mx) of (Some a, Some b) \<Rightarrow> a > b | _ \<Rightarrow> False)
        then Inl (MinGreaterThanMax fieldName)
      else if pat \<noteq> None \<and> ty \<noteq> ''string''
        then Inl (PatternOnNonString fieldName)
      else case nested of
        None \<Rightarrow> Inr ()
      | Some n \<Rightarrow>
          if ty \<noteq> ''object'' \<and> ty \<noteq> ''array'' then Inl (NestedOnNonContainer fieldName)
          else validateSchema n)"
| "validateFieldDefinitions [] = Inr ()"
| "validateFieldDefinitions ((fieldName, fieldDef) # rest) =
     (case validateFieldDefinition fieldName fieldDef of
        Inl e \<Rightarrow> Inl e
      | Inr u \<Rightarrow> validateFieldDefinitions rest)"

section \<open>Component registry (src/core/component.ts)\<close>

text \<open>A component type: its id and name (the constructor is never inspected).\<close>

record ComponentType =
  ct_id :: ComponentId
  ct_name :: string

text \<open>
  A JavaScript \<^verbatim>\<open>Map\<close> is an association list in insertion order; \<^const>\<open>AList.update\<close>
  replaces in place or appends, as \<^verbatim>\<open>Map.set\<close> does. A \<^verbatim>\<open>Set\<close> of numbers is a list
  without duplicates.

  Both maps of the registry hold the same \<^verbatim>\<open>ComponentType\<close> objects, and the dynamic
  registry later overwrites the id of such an object. The model keeps each object once,
  in \<open>components\<close> under its name; \<open>componentsById\<close> holds, for an id, the name under
  which the object lives. \<open>onIdRegistered\<close> tells whether the callback of the dynamic
  registry is installed.
\<close>

record ComponentRegistry =
  components :: "(string \<times> ComponentType) list"
  componentsById :: "(nat \<times> string) list"
  nextId :: nat
  onIdRegistered :: bool

definition newComponentRegistry :: ComponentRegistry where
  "newComponentRegistry = \<lparr>components = [], componentsById = [], nextId = 0, onIdRegistered = False\<rparr>"

definition getType :: "string \<Rightarrow> ComponentRegistry \<Rightarrow> ComponentType option" where
  "getType name cr = map_of (components cr) name"

definition getTypeById :: "nat \<Rightarrow> ComponentRegistry \<Rightarrow> ComponentType option" where
  "getTypeById cid cr =
     (case map_of (componentsById cr) cid of
        None \<Rightarrow> None
      | Some name \<Rightarrow> map_of (components cr) name)"

definition getAllTypes :: "ComponentRegistry \<Rightarrow> ComponentType list" where
  "getAllTypes cr = map snd (components cr)"


text \<open>
  \<^verbatim>\<open>register\<close> up to the callback: reject a known name, else create the type with the
  next id and enter it into both maps.
\<close>

definition registerType ::
  "string \<Rightarrow> ComponentRegistry \<Rightarrow> (ComponentType, ComponentRegistry) outcome" where
  "registerType name cr =
     (if map_of (components cr) name \<noteq> None
      then (Inl (ComponentTypeAlreadyRegistered name), cr)
      else
        (let componentType = \<lparr>ct_id = nextId cr, ct_name = name\<rparr>
         in (Inr componentType,
             cr\<lparr>components := AList.update name componentType (components cr),
                componentsById := AList.update (ct_id componentType) name (componentsById cr),
                nextId := nextId cr + 1\<rparr>)))"

definition setAdd :: "'a \<Rightarrow> 'a list \<Rightarrow> 'a list" where
  "setAdd x xs = (if x \<in> set xs then xs else xs @ [x])"

section \<open>Dynamic component registry (src/core/system-loader/dynamic-component-registry.ts)\<close>

record 'v ComponentRegistration =
  reg_id :: ComponentId
  hashedId :: string
  originalName :: string
  reg_systemId :: SystemId
  schema :: "'v ComponentSchema"
  reg_createdAt :: nat

text \<open>
  \<open>componentRegistrations\<close> and \<open>hashedIdToRegistration\<close> hold the same registration
  objects, and a version bump assigns to the \<^verbatim>\<open>schema\<close> field of such an object. The
  model keeps each object once, in \<open>hashedIdToRegistration\<close>; \<open>componentRegistrations\<close>
  holds, for a key \<^verbatim>\<open>name + ':' + systemId\<close>, the hashed id under which the object lives.
\<close>

record 'v DynamicComponentRegistry =
  componentRegistrations :: "(string \<times> string) list"
  systemComponents :: "(SystemId \<times> ComponentId list) list"
  hashedIdToRegistration :: "(string \<times> 'v ComponentRegistration) list"
  usedIds :: "ComponentId list"
  nextDynamicId :: nat

text \<open>The two registries are module-level singletons that call each other.\<close>

record 'v Registries =
  componentRegistry :: ComponentRegistry
  dynamicComponentRegistry :: "'v DynamicComponentRegistry"

definition reserveComponentId ::
  "int \<Rightarrow> 'v DynamicComponentRegistry \<Rightarrow> (unit, 'v DynamicComponentRegistry) outcome" where
  "reserveComponentId componentId d =
     (if componentId < 0 then (Inl (NegativeComponentId componentId), d)
      else (Inr (), d\<lparr>usedIds := setAdd (nat componentId) (usedIds d)\<rparr>))"

text \<open>
  \<^verbatim>\<open>ComponentRegistry.register\<close> as the rest of the program sees it: after the type is
  entered, the callback (when installed) reserves the new id in the dynamic registry.
\<close>

definition register :: "string \<Rightarrow> 'v Registries \<Rightarrow> (ComponentType, 'v Registries) outcome" where
  "register name rs =
     (case registerType name (componentRegistry rs) of
        (Inl e, cr') \<Rightarrow> (Inl e, rs\<lparr>componentRegistry := cr'\<rparr>)
      | (Inr componentType, cr') \<Rightarrow>
          (let d' = (if onIdRegistered cr'
                     then snd (reserveComponentId (int (ct_id componentType))
                                 (dynamicComponentRegistry rs))
                     else dynamicComponentRegistry rs)
           in (Inr componentType, \<lparr>componentRegistry = cr', dynamicComponentRegistry = d'\<rparr>)))"

definition refreshStaticComponentIds :: "'v Registries \<Rightarrow> 'v Registries" where
  "refreshStaticComponentIds rs =
     (let staticComponents = getAllTypes (componentRegistry rs);
          d = dynamicComponentRegistry rs;
          dynamicIds = filter (\<lambda>i. i \<ge> 1000) (usedIds d)
      in rs\<lparr>dynamicComponentRegistry :=
               d\<lparr>usedIds := fold setAdd (map ct_id staticComponents) dynamicIds\<rparr>\<rparr>)"

text \<open>The constructor: take over the ids registered so far and install the callback.\<close>

definition newDynamicComponentRegistry :: "ComponentRegistry \<Rightarrow> 'v Registries" where
  "newDynamicComponentRegistry cr =
     (let rs = refreshStaticComponentIds
                 \<lparr>componentRegistry = cr,
                  dynamicComponentRegistry = \<lparr>componentRegistrations = [], systemComponents = [],
                     hashedIdToRegistration = [], usedIds = [], nextDynamicId = 1000\<rparr>\<rparr>
      in rs\<lparr>componentRegistry := (componentRegistry rs)\<lparr>onIdRegistered := True\<rparr>\<rparr>)"

text \<open>
  \<^verbatim>\<open>while (this.usedIds.has(this.nextDynamicId)) this.nextDynamicId++\<close>: the loop ends
  because the set is finite.
\<close>

function nextFreeId :: "ComponentId list \<Rightarrow> nat \<Rightarrow> nat" where
  "nextFreeId used n = (if n \<in> set used then nextFreeId used (Suc n) else n)"
  by pat_completeness auto
termination
proof (relation "measure (\<lambda>(used, n). Suc (Max (set used)) - n)")
  show "wf (measure (\<lambda>(used, n). Suc (Max (set used)) - n))" by simp
next
  fix used :: "nat list" and n
  assume "n \<in> set used"
  then have "n \<le> Max (set used)" by simp
  then show "((used, Suc n), (used, n)) \<in> measure (\<lambda>(used, n). Suc (Max (set used)) - n)"
    by simp
qed

declare nextFreeId.simps [simp del]

definition allocateComponentId ::
  "'v DynamicComponentRegistry \<Rightarrow> ComponentId \<times> 'v DynamicComponentRegistry" where
  "allocateComponentId d =
     (let allocatedId = nextFreeId (usedIds d) (nextDynamicId d)
      in (allocatedId,
          d\<lparr>usedIds := setAdd allocatedId (usedIds d), nextDynamicId := allocatedId + 1\<rparr>))"


text \<open>
  \<^verbatim>\<open>createHashedId\<close>: the first 16 characters of the hexadecimal SHA-256 digest of
  \<^verbatim>\<open>`${systemId}:${componentName}`\<close>. The digest comes from Node's \<^verbatim>\<open>crypto\<close> module and
  is the parameter \<open>sha256hex\<close> of the model.
\<close>

definition createHashedId :: "(string \<Rightarrow> string) \<Rightarrow> SystemId \<Rightarrow> string \<Rightarrow> string" where
  "createHashedId sha256hex systemId componentName =
     take 16 (sha256hex (systemId @ '':'' @ componentName))"

definition getComponentTypeById :: "ComponentId \<Rightarrow> 'v Registries \<Rightarrow> ComponentType option" where
  "getComponentTypeById componentId rs =
     (case List.find (\<lambda>registration. reg_id registration = componentId)
             (map snd (hashedIdToRegistration (dynamicComponentRegistry rs))) of
        Some registration \<Rightarrow> getType (hashedId registration) (componentRegistry rs)
      | None \<Rightarrow> getTypeById componentId (componentRegistry rs))"

text \<open>
  The second half of \<^verbatim>\<open>defineComponent\<close>, taken when the hashed id is not yet in
  \<open>hashedIdToRegistration\<close>: refresh, allocate, register with the component registry,
  store the registration, overwrite the id of the new component type. The id is allocated
  before the component registry is asked, so a throw of \<^verbatim>\<open>register\<close> leaves the
  allocation behind. \<open>now\<close> is \<^verbatim>\<open>Date.now()\<close>.
\<close>

definition storeRegistration ::
  "string \<Rightarrow> string \<Rightarrow> 'v ComponentSchema \<Rightarrow> SystemId \<Rightarrow> nat \<Rightarrow> ComponentId \<Rightarrow> ComponentType
     \<Rightarrow> 'v Registries \<Rightarrow> ComponentType \<times> 'v Registries" where
  "storeRegistration hashed name sch systemId now componentId componentType rs3 =
     (let registration = \<lparr>reg_id = componentId, hashedId = hashed,
             originalName = name, reg_systemId = systemId, schema = sch,
             reg_createdAt = now\<rparr>;
          d3 = dynamicComponentRegistry rs3;
          mine = (case map_of (systemComponents d3) systemId of
                    None \<Rightarrow> [] | Some ids \<Rightarrow> ids);
          d4 = d3\<lparr>componentRegistrations :=
                   AList.update (name @ '':'' @ systemId) hashed
                     (componentRegistrations d3),
                 hashedIdToRegistration :=
                   AList.update hashed registration (hashedIdToRegistration d3),
                 systemComponents :=
                   AList.update systemId (setAdd componentId mine)
                     (systemComponents d3)\<rparr>;
          cr3 = componentRegistry rs3;
          componentType' = componentType\<lparr>ct_id := componentId\<rparr>;
          cr4 = cr3\<lparr>components :=
                   AList.update hashed componentType' (components cr3)\<rparr>
      in (componentType', \<lparr>componentRegistry = cr4, dynamicComponentRegistry = d4\<rparr>))"

definition defineNewComponent ::
  "string \<Rightarrow> string \<Rightarrow> 'v ComponentSchema \<Rightarrow> SystemId \<Rightarrow> nat \<Rightarrow> 'v Registries
     \<Rightarrow> (ComponentType option, 'v Registries) outcome" where
  "defineNewComponent hashed name sch systemId now rs =
     (let rs1 = refreshStaticComponentIds rs;
          allocation = allocateComponentId (dynamicComponentRegistry rs1);
          componentId = fst allocation;
          rs2 = rs1\<lparr>dynamicComponentRegistry := snd allocation\<rparr>
      in case register hashed rs2 of
           (Inl e, rs3) \<Rightarrow> (Inl e, rs3)
         | (Inr componentType, rs3) \<Rightarrow>
             (let stored = storeRegistration hashed name sch systemId now componentId
                             componentType rs3
              in (Inr (Some (fst stored)), snd stored)))"

text \<open>
  \<^verbatim>\<open>defineComponent\<close>. The update path returns \<^verbatim>\<open>getComponentTypeById(existing.id)!\<close>, which
  may be undefined at run time: the result is an option.
\<close>

definition defineComponent ::
  "(string \<Rightarrow> string) \<Rightarrow> string \<Rightarrow> 'v ComponentSchema \<Rightarrow> SystemId \<Rightarrow> nat \<Rightarrow> 'v Registries
     \<Rightarrow> (ComponentType option, 'v Registries) outcome" where
  "defineComponent sha256hex name sch systemId now rs =
     (case validateSchema sch of
        Inl e \<Rightarrow> (Inl e, rs)
      | Inr u \<Rightarrow>
         (let hashed = createHashedId sha256hex systemId name in
          case map_of (hashedIdToRegistration (dynamicComponentRegistry rs)) hashed of
            Some existing \<Rightarrow>
              if reg_systemId existing = systemId then
                if version sch \<le> version (schema existing)
                then (Inl (VersionNotGreater name (version sch) (version (schema existing))), rs)
                else
                  (let d = dynamicComponentRegistry rs;
                       rs' = rs\<lparr>dynamicComponentRegistry :=
                               d\<lparr>hashedIdToRegistration :=
                                   AList.update hashed (existing\<lparr>schema := sch\<rparr>)
                                     (hashedIdToRegistration d)\<rparr>\<rparr>
                   in (Inr (getComponentTypeById (reg_id existing) rs'), rs'))
              else (Inl (NameConflict name (reg_systemId existing)), rs)
          | None \<Rightarrow> defineNewComponent hashed name sch systemId now rs))"

definition getComponentRegistration ::
  "string \<Rightarrow> SystemId \<Rightarrow> 'v DynamicComponentRegistry \<Rightarrow> 'v ComponentRegistration option" where
  "getComponentRegistration name systemId d =
     (case map_of (componentRegistrations d) (name @ '':'' @ systemId) of
        None \<Rightarrow> None
      | Some hashed \<Rightarrow> map_of (hashedIdToRegistration d) hashed)"

definition getComponentId ::
  "string \<Rightarrow> SystemId \<Rightarrow> 'v DynamicComponentRegistry \<Rightarrow> ComponentId option" where
  "getComponentId name systemId d = map_option reg_id (getComponentRegistration name systemId d)"

definition getComponentType ::
  "(string \<Rightarrow> string) \<Rightarrow> string \<Rightarrow> SystemId \<Rightarrow> 'v Registries \<Rightarrow> ComponentType option" where
  "getComponentType sha256hex name systemId rs =
     getType (createHashedId sha256hex systemId name) (componentRegistry rs)"

definition hasComponent :: "string \<Rightarrow> SystemId \<Rightarrow> 'v DynamicComponentRegistry \<Rightarrow> bool" where
  "hasComponent name systemId d =
     (map_of (componentRegistrations d) (name @ '':'' @ systemId) \<noteq> None)"


text \<open>
  \<^verbatim>\<open>removeSystemComponents\<close>: every registration whose id is in the system's id set is
  deleted from both maps and its id is taken out of \<open>usedIds\<close>. The component registry
  is not touched.
\<close>

definition removeSystemComponents ::
  "SystemId \<Rightarrow> 'v DynamicComponentRegistry \<Rightarrow> 'v DynamicComponentRegistry" where
  "removeSystemComponents systemId d =
     (case map_of (systemComponents d) systemId of
        None \<Rightarrow> d
      | Some componentIds \<Rightarrow>
          (let doomed = filter (\<lambda>registration. reg_id registration \<in> set componentIds)
                          (map snd (hashedIdToRegistration d))
           in d\<lparr>componentRegistrations :=
                   fold (\<lambda>registration. AList.delete (originalName registration @ '':'' @ systemId))
                     doomed (componentRegistrations d),
                 hashedIdToRegistration :=
                   fold (\<lambda>registration. AList.delete (hashedId registration))
                     doomed (hashedIdToRegistration d),
                 usedIds := fold (\<lambda>registration. removeAll (reg_id registration)) doomed (usedIds d),
                 systemComponents := AList.delete systemId (systemComponents d)\<rparr>))"


section \<open>Security validator (src/core/system-loader/security-validator.ts)\<close>











section \<open>User systems and the system loader (user-system.ts, system-loader.ts)\<close>























section \<open>Enhanced system context (src/core/system-loader/enhanced-system-context.ts)\<close>









section \<open>Reachable states of the two registries\<close>

text \<open>The ids that the dynamic registry has given to its current registrations.\<close>

definition dynamicIds :: "'v DynamicComponentRegistry \<Rightarrow> ComponentId set" where
  "dynamicIds d = reg_id ` snd ` set (hashedIdToRegistration d)"




section \<open>Concrete states used to evaluate the model\<close>

definition entity1 :: Entity where
  "entity1 = \<lparr>ent_id = 1, generation = 0\<rparr>"

definition noOptions :: CreateEntityOptions where
  "noOptions = \<lparr>opt_owner = None, opt_permissions = None\<rparr>"

text \<open>Entity 1, created and owned by program A, with default permissions.\<close>

definition acl_owned_by_A :: EntityAccessControl where
  "acl_owned_by_A = registerEntity entity1 ''A'' noOptions 0 newEntityAccessControl"

text \<open>The owner A has then made D a delegate and put DELEGATE into the permission set.\<close>

definition acl_delegating :: EntityAccessControl where
  "acl_delegating = snd (grantAccess entity1 ''A'' ''D'' [DELEGATE] acl_owned_by_A)"






text \<open>
  A stand-in for the digest, and a valid one-field schema of a given version, to run the
  registry on concrete input.
\<close>

definition toyDigest :: "string \<Rightarrow> string" where
  "toyDigest s = s"

definition numberField :: "unit FieldDefinition" where
  "numberField = FieldDefinition ''number'' None None None None None"

definition schemaV :: "int \<Rightarrow> unit ComponentSchema" where
  "schemaV v = ComponentSchema v [(''x'', numberField)] None None"

definition emptyRegistries :: "unit Registries" where
  "emptyRegistries = newDynamicComponentRegistry newComponentRegistry"

text \<open>Program S1 has declared Position with a schema of version 1.\<close>

definition positionV1 :: "unit Registries" where
  "positionV1 = snd (defineComponent toyDigest ''Position'' (schemaV 1) ''S1'' 0 emptyRegistries)"

text \<open>Program S1 has then been unloaded.\<close>

definition positionUnloaded :: "unit Registries" where
  "positionUnloaded = positionV1\<lparr>dynamicComponentRegistry :=
      removeSystemComponents ''S1'' (dynamicComponentRegistry positionV1)\<rparr>"














section \<open>Entity access control: permission checks\<close>

lemma unionPermissions_set: "set (unionPermissions existing ps) = set existing \<union> set ps"
  by (induction ps arbitrary: existing) auto

lemma unionPermissions_distinct: "distinct existing \<Longrightarrow> distinct (unionPermissions existing ps)"
  by (induction ps arbitrary: existing) auto

text \<open>
  C1. \<^verbatim>\<open>hasPermission(E, P, perm)\<close> is true exactly when E has an ownership record and
  either P is its current owner, or P is in its delegate list and perm is in its
  permission set; for an entity with no ownership record it is false.
\<close>

theorem hasPermission_iff:
  "(hasPermission e P perm acl \<longleftrightarrow>
      (\<exists>ow. entityOwnership acl (ent_id e) = Some ow \<and>
         (owner ow = P \<or> (P \<in> set (delegates ow) \<and> perm \<in> set (permissions ow)))))
   \<and> (entityOwnership acl (ent_id e) = None \<longrightarrow> \<not> hasPermission e P perm acl)"
  by (auto simp: hasPermission_def split: option.splits)

theorem hasPermission_iff_witness:
  "hasPermission entity1 ''A'' TRANSFER acl_delegating
   \<and> hasPermission entity1 ''D'' DELEGATE acl_delegating
   \<and> \<not> hasPermission entity1 ''D'' TRANSFER acl_delegating
   \<and> \<not> hasPermission entity1 ''X'' READ acl_delegating
   \<and> entityOwnership newEntityAccessControl (ent_id entity1) = None
   \<and> \<not> hasPermission entity1 ''A'' READ newEntityAccessControl"
  using hasPermission_iff [of entity1 "''A''" TRANSFER acl_delegating]
        hasPermission_iff [of entity1 "''D''" DELEGATE acl_delegating]
        hasPermission_iff [of entity1 "''D''" TRANSFER acl_delegating]
        hasPermission_iff [of entity1 "''X''" READ acl_delegating]
        hasPermission_iff [of entity1 "''A''" READ newEntityAccessControl]
  by (simp add: acl_delegating_def acl_owned_by_A_def grantAccess_def registerEntity_def
        newEntityAccessControl_def entity1_def noOptions_def)

section \<open>Entity access control: who may grant, revoke and transfer\<close>

text \<open>
  C2 as stated fails for \<^verbatim>\<open>grantAccess\<close>: entity 1 is owned by A, D is only a delegate,
  the permission set contains DELEGATE, and D's call to \<^verbatim>\<open>grantAccess\<close> succeeds and adds X
  to the delegate list.
\<close>

theorem grantAccess_owner_only_counterexample:
  "map_option owner (entityOwnership acl_delegating (ent_id entity1)) = Some ''A''
   \<and> map_option delegates (entityOwnership acl_delegating (ent_id entity1)) = Some [''D'']
   \<and> fst (grantAccess entity1 ''D'' ''X'' [TRANSFER] acl_delegating) = Inr ()
   \<and> map_option delegates (entityOwnership
        (snd (grantAccess entity1 ''D'' ''X'' [TRANSFER] acl_delegating)) (ent_id entity1))
       = Some [''D'', ''X'']"
  by (simp add: acl_delegating_def acl_owned_by_A_def grantAccess_def registerEntity_def
        newEntityAccessControl_def entity1_def noOptions_def)

text \<open>
  C2 (amended). For every registered entity, \<^verbatim>\<open>revokeAccess\<close> and \<^verbatim>\<open>transferOwnership\<close>
  succeed exactly when the caller is the current owner, and \<^verbatim>\<open>grantAccess\<close> succeeds exactly
  when the caller is the current owner or is a delegate while DELEGATE is in the entity's
  permission set. Every other call returns the error and the table unchanged.
\<close>

theorem mutation_requires_authority:
  assumes "entityOwnership acl (ent_id e) = Some ow"
  shows
   "(fst (revokeAccess e caller t acl) = Inr () \<longleftrightarrow> owner ow = caller)
  \<and> (fst (transferOwnership e caller n acl) = Inr () \<longleftrightarrow> owner ow = caller)
  \<and> (fst (grantAccess e caller t ps acl) = Inr () \<longleftrightarrow>
        owner ow = caller \<or> (caller \<in> set (delegates ow) \<and> DELEGATE \<in> set (permissions ow)))
  \<and> (owner ow \<noteq> caller \<longrightarrow>
        revokeAccess e caller t acl = (Inl (RevokeDenied caller (ent_id e)), acl)
      \<and> transferOwnership e caller n acl = (Inl (NotOwner caller (ent_id e)), acl))
  \<and> (owner ow \<noteq> caller \<and> \<not> (caller \<in> set (delegates ow) \<and> DELEGATE \<in> set (permissions ow)) \<longrightarrow>
        grantAccess e caller t ps acl = (Inl (GrantDenied caller (ent_id e)), acl))"
  using assms by (simp add: revokeAccess_def transferOwnership_def grantAccess_def Let_def)

lemma acl_owned_by_A_lookup:
  "entityOwnership acl_owned_by_A (ent_id entity1) =
     Some \<lparr>owner = ''A'', permissions = [READ, WRITE, DELETE], delegates = [],
           createdBy = ''A'', createdAt = 0\<rparr>"
  by (simp add: acl_owned_by_A_def registerEntity_def
        newEntityAccessControl_def entity1_def noOptions_def)

theorem mutation_requires_authority_witness:
  "fst (revokeAccess entity1 ''A'' ''D'' acl_owned_by_A) = Inr ()
   \<and> fst (transferOwnership entity1 ''A'' ''B'' acl_owned_by_A) = Inr ()
   \<and> fst (grantAccess entity1 ''A'' ''D'' [READ] acl_owned_by_A) = Inr ()
   \<and> revokeAccess entity1 ''D'' ''A'' acl_owned_by_A = (Inl (RevokeDenied ''D'' 1), acl_owned_by_A)
   \<and> transferOwnership entity1 ''D'' ''D'' acl_owned_by_A = (Inl (NotOwner ''D'' 1), acl_owned_by_A)
   \<and> grantAccess entity1 ''D'' ''D'' [WRITE] acl_owned_by_A = (Inl (GrantDenied ''D'' 1), acl_owned_by_A)"
  using mutation_requires_authority [OF acl_owned_by_A_lookup, of "''A''" "''D''" "''B''" "[READ]"]
        mutation_requires_authority [OF acl_owned_by_A_lookup, of "''D''" "''A''" "''D''" "[WRITE]"]
        mutation_requires_authority [OF acl_owned_by_A_lookup, of "''D''" "''D''" "''D''" "[WRITE]"]
  by (simp add: entity1_def)

section \<open>Gas tracker: a fixed tariff\<close>



lemma consumeGas_throw:
  "gasUsed tr + (case amount of Some a \<Rightarrow> a | None \<Rightarrow> gasCostOf (gasCosts (config tr)) operation)
       > maxGas (config tr) \<Longrightarrow>
   fst (consumeGas operation amount tr) = Inl (GasLimitExceeded
      (gasUsed tr + (case amount of Some a \<Rightarrow> a | None \<Rightarrow> gasCostOf (gasCosts (config tr)) operation))
      (maxGas (config tr)))"
  by (simp add: consumeGas_def Let_def)





section \<open>Entity access control: transfer of ownership\<close>

text \<open>No method of the table ever puts a program into a delegate list twice.\<close>

lemma reachable_acl_distinct_delegates:
  "reachable_acl acl \<Longrightarrow> entityOwnership acl i = Some ow \<Longrightarrow> distinct (delegates ow)"
proof (induction arbitrary: i ow rule: reachable_acl.induct)
  case reach_new
  then show ?case by (simp add: newEntityAccessControl_def)
next
  case (reach_register acl e s opts now)
  then show ?case by (auto simp: registerEntity_def Let_def split: if_splits)
next
  case (reach_unregister acl e)
  then show ?case by (auto simp: unregisterEntity_def Let_def split: option.splits if_splits)
next
  case (reach_grant acl e g t ps)
  then show ?case by (auto simp: grantAccess_def Let_def split: option.splits if_splits)
next
  case (reach_revoke acl e r t)
  then show ?case by (auto simp: revokeAccess_def split: option.splits if_splits)
next
  case (reach_transfer acl e c n)
  then show ?case by (auto simp: transferOwnership_def split: option.splits if_splits)
next
  case (reach_cleanup acl s)
  then show ?case by (auto simp: cleanupSystemEntities_def split: option.splits if_splits)
next
  case (reach_clear acl)
  then show ?case by (simp add: clearAccessControl_def)
qed

text \<open>
  C4 as stated fails when the owner transfers the entity to itself: A stays the owner and
  keeps every permission although it is not in the delegate list.
\<close>

theorem transferOwnership_to_self_counterexample:
  "map_option owner (entityOwnership acl_owned_by_A (ent_id entity1)) = Some ''A''
   \<and> fst (transferOwnership entity1 ''A'' ''A'' acl_owned_by_A) = Inr ()
   \<and> hasPermission entity1 ''A'' READ (snd (transferOwnership entity1 ''A'' ''A'' acl_owned_by_A))
   \<and> map_option delegates (entityOwnership
         (snd (transferOwnership entity1 ''A'' ''A'' acl_owned_by_A)) (ent_id entity1)) = Some []"
  by (simp add: acl_owned_by_A_def transferOwnership_def hasPermission_def registerEntity_def
        newEntityAccessControl_def entity1_def noOptions_def)

lemma remove1_distinct_filter:
  "distinct xs \<Longrightarrow> remove1 x xs = filter (\<lambda>d. d \<noteq> x) xs"
proof (induction xs)
  case Nil
  then show ?case by simp
next
  case (Cons a xs)
  show ?case
  proof (cases "x = a")
    case True
    with Cons.prems have "x \<notin> set xs" by simp
    then have "filter (\<lambda>d. d \<noteq> x) xs = xs" by (induction xs) auto
    with True show ?thesis by simp
  next
    case False
    with Cons show ?thesis by simp
  qed
qed

text \<open>
  C4 (amended). In a reachable table, after the owner A of a registered entity E calls
  \<^verbatim>\<open>transferOwnership(E, A, B)\<close>: the call succeeds; E's record has owner B and B is no
  longer in the delegate list, while the creator, the creation time, the permission set,
  the other delegates and every other entity are unchanged; B has every permission; and
  if A and B differ, A has a permission exactly when A is in the delegate list and the
  permission is in E's permission set.
\<close>

theorem transferOwnership_effect:
  assumes "reachable_acl acl"
      and "entityOwnership acl (ent_id e) = Some ow"
      and "owner ow = A"
      and "acl' = snd (transferOwnership e A B acl)"
      and "ow' = ow\<lparr>owner := B, delegates := filter (\<lambda>d. d \<noteq> B) (delegates ow)\<rparr>"
  shows "fst (transferOwnership e A B acl) = Inr ()
       \<and> acl' = acl\<lparr>entityOwnership := (entityOwnership acl)(ent_id e \<mapsto> ow')\<rparr>
       \<and> B \<notin> set (delegates ow')
       \<and> (\<forall>perm. hasPermission e B perm acl')
       \<and> (A \<noteq> B \<longrightarrow>
            (\<forall>perm. hasPermission e A perm acl' \<longleftrightarrow>
               A \<in> set (delegates ow') \<and> perm \<in> set (permissions ow')))"
proof -
  have "distinct (delegates ow)"
    using assms(1,2) by (rule reachable_acl_distinct_delegates)
  then have "remove1 B (delegates ow) = filter (\<lambda>d. d \<noteq> B) (delegates ow)"
    by (rule remove1_distinct_filter)
  with assms(2-5) have acl': "acl' = acl\<lparr>entityOwnership := (entityOwnership acl)(ent_id e \<mapsto> ow')\<rparr>"
    by (simp add: transferOwnership_def)
  have ok: "fst (transferOwnership e A B acl) = Inr ()"
    using assms(2,3) by (simp add: transferOwnership_def)
  have B: "B \<notin> set (delegates ow')" using assms(5) by simp
  have hB: "\<forall>perm. hasPermission e B perm acl'"
    using acl' assms(5) by (simp add: hasPermission_def)
  have hA: "A \<noteq> B \<longrightarrow> (\<forall>perm. hasPermission e A perm acl' \<longleftrightarrow>
               A \<in> set (delegates ow') \<and> perm \<in> set (permissions ow'))"
    using acl' assms(5) by (auto simp: hasPermission_def)
  from ok acl' B hB hA show ?thesis by blast
qed

lemma acl_delegating_reachable: "reachable_acl acl_delegating"
  unfolding acl_delegating_def acl_owned_by_A_def
  by (intro reachable_acl.intros)

lemma acl_delegating_lookup:
  "entityOwnership acl_delegating (ent_id entity1) =
     Some \<lparr>owner = ''A'', permissions = [READ, WRITE, DELETE, DELEGATE], delegates = [''D''],
           createdBy = ''A'', createdAt = 0\<rparr>"
  by (simp add: acl_delegating_def acl_owned_by_A_def grantAccess_def registerEntity_def
        newEntityAccessControl_def entity1_def noOptions_def)

theorem transferOwnership_effect_witness:
  "fst (transferOwnership entity1 ''A'' ''D'' acl_delegating) = Inr ()
   \<and> entityOwnership (snd (transferOwnership entity1 ''A'' ''D'' acl_delegating)) (ent_id entity1) =
       Some \<lparr>owner = ''D'', permissions = [READ, WRITE, DELETE, DELEGATE], delegates = [],
             createdBy = ''A'', createdAt = 0\<rparr>
   \<and> hasPermission entity1 ''D'' TRANSFER (snd (transferOwnership entity1 ''A'' ''D'' acl_delegating))
   \<and> \<not> hasPermission entity1 ''A'' READ (snd (transferOwnership entity1 ''A'' ''D'' acl_delegating))"
proof -
  let ?acl' = "snd (transferOwnership entity1 ''A'' ''D'' acl_delegating)"
  have own: "owner \<lparr>owner = ''A'', permissions = [READ, WRITE, DELETE, DELEGATE],
      delegates = [''D''], createdBy = ''A'', createdAt = 0\<rparr> = ''A''" by simp
  note t = transferOwnership_effect [OF acl_delegating_reachable acl_delegating_lookup own refl refl,
          of "''D''"]
  note t1 = t [THEN conjunct1]
  note t2 = t [THEN conjunct2, THEN conjunct1]
  note t4 = t [THEN conjunct2, THEN conjunct2, THEN conjunct2, THEN conjunct1]
  note t5 = t [THEN conjunct2, THEN conjunct2, THEN conjunct2, THEN conjunct2]
  from t1 have 1: "fst (transferOwnership entity1 ''A'' ''D'' acl_delegating) = Inr ()" .
  from t2 have "?acl' = acl_delegating\<lparr>entityOwnership := (entityOwnership acl_delegating)
      (ent_id entity1 \<mapsto> \<lparr>owner = ''D'', permissions = [READ, WRITE, DELETE, DELEGATE],
             delegates = [], createdBy = ''A'', createdAt = 0\<rparr>)\<rparr>" by simp
  then have 2: "entityOwnership ?acl' (ent_id entity1) =
       Some \<lparr>owner = ''D'', permissions = [READ, WRITE, DELETE, DELEGATE], delegates = [],
             createdBy = ''A'', createdAt = 0\<rparr>" by simp
  from t4 have 3: "hasPermission entity1 ''D'' TRANSFER ?acl'" by blast
  from t5 have 4: "\<not> hasPermission entity1 ''A'' READ ?acl'" by simp
  from 1 2 3 4 show ?thesis by blast
qed

section \<open>Event system: delivery\<close>








section \<open>Dynamic component registry: declaring record types\<close>

lemma nextFreeId_ge: "n \<le> nextFreeId used n"
proof (induction used n rule: nextFreeId.induct)
  case (1 used n)
  show ?case
  proof (cases "n \<in> set used")
    case True
    with 1 have "Suc n \<le> nextFreeId used (Suc n)" by simp
    with True show ?thesis by (subst nextFreeId.simps) simp
  next
    case False
    then show ?thesis by (subst nextFreeId.simps) simp
  qed
qed


lemma validateSchema_schemaV: "1 \<le> v \<Longrightarrow> validateSchema (schemaV v) = Inr ()"
  by (simp add: schemaV_def numberField_def)

lemma emptyRegistries_eq:
  "emptyRegistries = \<lparr>componentRegistry = \<lparr>components = [], componentsById = [], nextId = 0,
        onIdRegistered = True\<rparr>,
      dynamicComponentRegistry = \<lparr>componentRegistrations = [], systemComponents = [],
        hashedIdToRegistration = [], usedIds = [], nextDynamicId = 1000\<rparr>\<rparr>"
  by (simp add: emptyRegistries_def newDynamicComponentRegistry_def newComponentRegistry_def
        refreshStaticComponentIds_def getAllTypes_def Let_def)

lemma nextFreeId_fresh: "n \<notin> set used \<Longrightarrow> nextFreeId used n = n"
  by (subst nextFreeId.simps) simp

lemma positionV1_eq:
  "positionV1 = \<lparr>componentRegistry = \<lparr>
        components = [(''S1:Position'', \<lparr>ct_id = 1000, ct_name = ''S1:Position''\<rparr>)],
        componentsById = [(0, ''S1:Position'')], nextId = 1, onIdRegistered = True\<rparr>,
      dynamicComponentRegistry = \<lparr>
        componentRegistrations = [(''Position:S1'', ''S1:Position'')],
        systemComponents = [(''S1'', [1000])],
        hashedIdToRegistration = [(''S1:Position'',
           \<lparr>reg_id = 1000, hashedId = ''S1:Position'', originalName = ''Position'',
            reg_systemId = ''S1'', schema = schemaV 1, reg_createdAt = 0\<rparr>)],
        usedIds = [1000, 0], nextDynamicId = 1001\<rparr>\<rparr>"
  by (simp add: positionV1_def emptyRegistries_eq defineComponent_def defineNewComponent_def
        storeRegistration_def validateSchema_schemaV
        createHashedId_def toyDigest_def refreshStaticComponentIds_def getAllTypes_def
        allocateComponentId_def nextFreeId_fresh register_def registerType_def
        reserveComponentId_def setAdd_def Let_def)





text \<open>
  What declaring a name does when its hashed id is known to neither registry: the
  component gets the first free id from \<open>nextDynamicId\<close> on, and both registries learn
  the hashed id.
\<close>

lemma refreshStaticComponentIds_keeps:
  "nextDynamicId (dynamicComponentRegistry (refreshStaticComponentIds rs))
     = nextDynamicId (dynamicComponentRegistry rs)"
  "hashedIdToRegistration (dynamicComponentRegistry (refreshStaticComponentIds rs))
     = hashedIdToRegistration (dynamicComponentRegistry rs)"
  "componentRegistrations (dynamicComponentRegistry (refreshStaticComponentIds rs))
     = componentRegistrations (dynamicComponentRegistry rs)"
  "systemComponents (dynamicComponentRegistry (refreshStaticComponentIds rs))
     = systemComponents (dynamicComponentRegistry rs)"
  "componentRegistry (refreshStaticComponentIds rs) = componentRegistry rs"
  by (simp_all add: refreshStaticComponentIds_def Let_def)

lemma allocateComponentId_keeps:
  "fst (allocateComponentId d) = nextFreeId (usedIds d) (nextDynamicId d)"
  "nextDynamicId (snd (allocateComponentId d)) = nextFreeId (usedIds d) (nextDynamicId d) + 1"
  "hashedIdToRegistration (snd (allocateComponentId d)) = hashedIdToRegistration d"
  "componentRegistrations (snd (allocateComponentId d)) = componentRegistrations d"
  "systemComponents (snd (allocateComponentId d)) = systemComponents d"
  by (simp_all add: allocateComponentId_def Let_def)

lemma register_fresh:
  assumes "map_of (components (componentRegistry rs)) name = None"
  shows "fst (register name rs) = Inr \<lparr>ct_id = nextId (componentRegistry rs), ct_name = name\<rparr>"
    and "components (componentRegistry (snd (register name rs)))
           = AList.update name \<lparr>ct_id = nextId (componentRegistry rs), ct_name = name\<rparr>
               (components (componentRegistry rs))"
    and "nextId (componentRegistry (snd (register name rs))) = nextId (componentRegistry rs) + 1"
    and "hashedIdToRegistration (dynamicComponentRegistry (snd (register name rs)))
           = hashedIdToRegistration (dynamicComponentRegistry rs)"
    and "componentRegistrations (dynamicComponentRegistry (snd (register name rs)))
           = componentRegistrations (dynamicComponentRegistry rs)"
    and "nextDynamicId (dynamicComponentRegistry (snd (register name rs)))
           = nextDynamicId (dynamicComponentRegistry rs)"
  using assms by (simp_all add: register_def registerType_def Let_def reserveComponentId_def)

lemma storeRegistration_effect:
  "fst (storeRegistration hashed name sch S now cid ct rs3) = ct\<lparr>ct_id := cid\<rparr>"
  "map_of (hashedIdToRegistration (dynamicComponentRegistry
       (snd (storeRegistration hashed name sch S now cid ct rs3))))
     = (map_of (hashedIdToRegistration (dynamicComponentRegistry rs3)))
         (hashed \<mapsto> \<lparr>reg_id = cid, hashedId = hashed, originalName = name,
                     reg_systemId = S, schema = sch, reg_createdAt = now\<rparr>)"
  "map_of (componentRegistrations (dynamicComponentRegistry
       (snd (storeRegistration hashed name sch S now cid ct rs3))))
     = (map_of (componentRegistrations (dynamicComponentRegistry rs3)))(name @ '':'' @ S \<mapsto> hashed)"
  "map_of (components (componentRegistry (snd (storeRegistration hashed name sch S now cid ct rs3))))
     = (map_of (components (componentRegistry rs3)))(hashed \<mapsto> ct\<lparr>ct_id := cid\<rparr>)"
  "nextDynamicId (dynamicComponentRegistry (snd (storeRegistration hashed name sch S now cid ct rs3)))
     = nextDynamicId (dynamicComponentRegistry rs3)"
  "nextId (componentRegistry (snd (storeRegistration hashed name sch S now cid ct rs3)))
     = nextId (componentRegistry rs3)"
  by (simp_all add: storeRegistration_def Let_def update_conv')

lemma defineNewComponent_effect:
  assumes "map_of (components (componentRegistry rs)) hashed = None"
      and "cid = nextFreeId (usedIds (dynamicComponentRegistry (refreshStaticComponentIds rs)))
                   (nextDynamicId (dynamicComponentRegistry rs))"
      and "res = defineNewComponent hashed name sch S now rs"
  shows "fst res = Inr (Some \<lparr>ct_id = cid, ct_name = hashed\<rparr>)"
    and "map_of (hashedIdToRegistration (dynamicComponentRegistry (snd res)))
          = (map_of (hashedIdToRegistration (dynamicComponentRegistry rs)))
              (hashed \<mapsto> \<lparr>reg_id = cid, hashedId = hashed, originalName = name,
                          reg_systemId = S, schema = sch, reg_createdAt = now\<rparr>)"
    and "map_of (componentRegistrations (dynamicComponentRegistry (snd res)))
          = (map_of (componentRegistrations (dynamicComponentRegistry rs)))
              (name @ '':'' @ S \<mapsto> hashed)"
    and "map_of (components (componentRegistry (snd res)))
          = (map_of (components (componentRegistry rs)))
              (hashed \<mapsto> \<lparr>ct_id = cid, ct_name = hashed\<rparr>)"
    and "nextDynamicId (dynamicComponentRegistry (snd res)) = cid + 1"
    and "nextDynamicId (dynamicComponentRegistry rs) \<le> cid"
    and "nextId (componentRegistry (snd res)) = nextId (componentRegistry rs) + 1"
proof -
  let ?rs1 = "refreshStaticComponentIds rs"
  let ?al = "allocateComponentId (dynamicComponentRegistry ?rs1)"
  let ?rs2 = "?rs1\<lparr>dynamicComponentRegistry := snd ?al\<rparr>"
  have cid: "fst ?al = cid"
    using assms(2) by (simp add: allocateComponentId_keeps refreshStaticComponentIds_keeps)
  have c2: "map_of (components (componentRegistry ?rs2)) hashed = None"
    using assms(1) by (simp add: refreshStaticComponentIds_keeps)
  obtain r rs3 where rr: "register hashed ?rs2 = (r, rs3)" by (cases "register hashed ?rs2")
  from register_fresh [OF c2] rr have
        r: "r = Inr \<lparr>ct_id = nextId (componentRegistry rs), ct_name = hashed\<rparr>"
    and c3: "components (componentRegistry rs3)
           = AList.update hashed \<lparr>ct_id = nextId (componentRegistry rs), ct_name = hashed\<rparr>
               (components (componentRegistry rs))"
    and n3: "nextId (componentRegistry rs3) = nextId (componentRegistry rs) + 1"
    and h3: "hashedIdToRegistration (dynamicComponentRegistry rs3)
           = hashedIdToRegistration (dynamicComponentRegistry rs)"
    and g3: "componentRegistrations (dynamicComponentRegistry rs3)
           = componentRegistrations (dynamicComponentRegistry rs)"
    and d3: "nextDynamicId (dynamicComponentRegistry rs3) = cid + 1"
    using assms(2)
    by (simp_all add: refreshStaticComponentIds_keeps allocateComponentId_keeps)
  let ?st = "storeRegistration hashed name sch S now cid
               \<lparr>ct_id = nextId (componentRegistry rs), ct_name = hashed\<rparr> rs3"
  have res: "res = (Inr (Some (fst ?st)), snd ?st)"
    unfolding assms(3) defineNewComponent_def Let_def rr cid r by simp
  show "fst res = Inr (Some \<lparr>ct_id = cid, ct_name = hashed\<rparr>)"
    by (simp add: res storeRegistration_effect)
  show "map_of (hashedIdToRegistration (dynamicComponentRegistry (snd res)))
          = (map_of (hashedIdToRegistration (dynamicComponentRegistry rs)))
              (hashed \<mapsto> \<lparr>reg_id = cid, hashedId = hashed, originalName = name,
                          reg_systemId = S, schema = sch, reg_createdAt = now\<rparr>)"
    by (simp add: res storeRegistration_effect h3)
  show "map_of (componentRegistrations (dynamicComponentRegistry (snd res)))
          = (map_of (componentRegistrations (dynamicComponentRegistry rs)))
              (name @ '':'' @ S \<mapsto> hashed)"
    by (simp add: res storeRegistration_effect g3)
  show "map_of (components (componentRegistry (snd res)))
          = (map_of (components (componentRegistry rs)))
              (hashed \<mapsto> \<lparr>ct_id = cid, ct_name = hashed\<rparr>)"
    by (simp add: res storeRegistration_effect c3 update_conv')
  show "nextDynamicId (dynamicComponentRegistry (snd res)) = cid + 1"
    by (simp add: res storeRegistration_effect d3)
  show "nextDynamicId (dynamicComponentRegistry rs) \<le> cid"
    using assms(2) by (simp add: nextFreeId_ge)
  show "nextId (componentRegistry (snd res)) = nextId (componentRegistry rs) + 1"
    by (simp add: res storeRegistration_effect n3)
qed

lemma defineComponent_is_new:
  "validateSchema sch = Inr () \<Longrightarrow>
   map_of (hashedIdToRegistration (dynamicComponentRegistry rs))
      (createHashedId sha256hex S name) = None \<Longrightarrow>
   defineComponent sha256hex name sch S now rs
     = defineNewComponent (createHashedId sha256hex S name) name sch S now rs"
  by (simp add: defineComponent_def Let_def)

lemma positionUnloaded_eq:
  "positionUnloaded = \<lparr>componentRegistry = \<lparr>
        components = [(''S1:Position'', \<lparr>ct_id = 1000, ct_name = ''S1:Position''\<rparr>)],
        componentsById = [(0, ''S1:Position'')], nextId = 1, onIdRegistered = True\<rparr>,
      dynamicComponentRegistry = \<lparr>
        componentRegistrations = [], systemComponents = [], hashedIdToRegistration = [],
        usedIds = [0], nextDynamicId = 1001\<rparr>\<rparr>"
  by (simp add: positionUnloaded_def positionV1_eq removeSystemComponents_def Let_def)

text \<open>
  C7 as stated fails in a registry from which program S1 has been unloaded: the component
  registry still knows the hashed id of (S1, Position), so although neither S1 nor S2
  has Position declared and the schema is valid, the declaration by S1 throws.
\<close>

theorem redeclare_after_unload_counterexample:
  "getComponentRegistration ''Position'' ''S1'' (dynamicComponentRegistry positionUnloaded) = None
   \<and> getComponentRegistration ''Position'' ''S2'' (dynamicComponentRegistry positionUnloaded) = None
   \<and> validateSchema (schemaV 1) = Inr ()
   \<and> fst (defineComponent toyDigest ''Position'' (schemaV 1) ''S1'' 0 positionUnloaded)
       = Inl (ComponentTypeAlreadyRegistered ''S1:Position'')"
  by (simp add: positionUnloaded_eq getComponentRegistration_def validateSchema_schemaV
        defineComponent_def defineNewComponent_def createHashedId_def toyDigest_def
        register_def registerType_def refreshStaticComponentIds_def Let_def)

text \<open>
  C7 (amended). Let S1 and S2 be distinct programs whose hashed ids for the name differ
  and are known to neither registry, and let both schemas be valid. Then the declaration
  by S1 and the following one by S2 both succeed; the two component ids differ; and
  afterwards each program's lookup of the name (\<^verbatim>\<open>getComponentId\<close>,
  \<^verbatim>\<open>getComponentRegistration\<close>, \<^verbatim>\<open>getComponentType\<close>) resolves to its own registration.
\<close>

theorem same_name_two_programs:
  assumes "S1 \<noteq> S2"
      and "validateSchema sch1 = Inr ()" and "validateSchema sch2 = Inr ()"
      and "h1 = createHashedId sha256hex S1 name" and "h2 = createHashedId sha256hex S2 name"
      and "h1 \<noteq> h2"
      and "map_of (hashedIdToRegistration (dynamicComponentRegistry rs)) h1 = None"
      and "map_of (hashedIdToRegistration (dynamicComponentRegistry rs)) h2 = None"
      and "map_of (components (componentRegistry rs)) h1 = None"
      and "map_of (components (componentRegistry rs)) h2 = None"
      and "r1 = defineComponent sha256hex name sch1 S1 now1 rs"
      and "r2 = defineComponent sha256hex name sch2 S2 now2 (snd r1)"
  shows "\<exists>id1 id2. id1 \<noteq> id2
      \<and> fst r1 = Inr (Some \<lparr>ct_id = id1, ct_name = h1\<rparr>)
      \<and> fst r2 = Inr (Some \<lparr>ct_id = id2, ct_name = h2\<rparr>)
      \<and> getComponentRegistration name S1 (dynamicComponentRegistry (snd r2))
          = Some \<lparr>reg_id = id1, hashedId = h1, originalName = name, reg_systemId = S1,
                  schema = sch1, reg_createdAt = now1\<rparr>
      \<and> getComponentRegistration name S2 (dynamicComponentRegistry (snd r2))
          = Some \<lparr>reg_id = id2, hashedId = h2, originalName = name, reg_systemId = S2,
                  schema = sch2, reg_createdAt = now2\<rparr>
      \<and> getComponentId name S1 (dynamicComponentRegistry (snd r2)) = Some id1
      \<and> getComponentId name S2 (dynamicComponentRegistry (snd r2)) = Some id2
      \<and> getComponentType sha256hex name S1 (snd r2) = Some \<lparr>ct_id = id1, ct_name = h1\<rparr>
      \<and> getComponentType sha256hex name S2 (snd r2) = Some \<lparr>ct_id = id2, ct_name = h2\<rparr>"
proof -
  define id1 where "id1 = nextFreeId (usedIds (dynamicComponentRegistry (refreshStaticComponentIds rs)))
                   (nextDynamicId (dynamicComponentRegistry rs))"
  define id2 where "id2 = nextFreeId
      (usedIds (dynamicComponentRegistry (refreshStaticComponentIds (snd r1))))
      (nextDynamicId (dynamicComponentRegistry (snd r1)))"
  have r1: "r1 = defineNewComponent h1 name sch1 S1 now1 rs"
    using assms(2,4,7,11) by (simp add: defineComponent_is_new)
  note e1 = defineNewComponent_effect [OF assms(9) id1_def r1]
  have h2_1: "map_of (hashedIdToRegistration (dynamicComponentRegistry (snd r1))) h2 = None"
    using e1(2) assms(6,8) by simp
  have c2_1: "map_of (components (componentRegistry (snd r1))) h2 = None"
    using e1(4) assms(6,10) by simp
  have r2: "r2 = defineNewComponent h2 name sch2 S2 now2 (snd r1)"
    using assms(3,5,12) h2_1 by (simp add: defineComponent_is_new)
  note e2 = defineNewComponent_effect [OF c2_1 id2_def r2]
  have ids: "id1 \<noteq> id2" using e1(5) e2(6) by simp
  have keys: "name @ '':'' @ S1 \<noteq> name @ '':'' @ S2" using assms(1) by simp
  have g1: "getComponentRegistration name S1 (dynamicComponentRegistry (snd r2))
          = Some \<lparr>reg_id = id1, hashedId = h1, originalName = name, reg_systemId = S1,
                  schema = sch1, reg_createdAt = now1\<rparr>"
    using keys assms(6) by (simp add: getComponentRegistration_def e2(2,3) e1(2,3))
  have g2: "getComponentRegistration name S2 (dynamicComponentRegistry (snd r2))
          = Some \<lparr>reg_id = id2, hashedId = h2, originalName = name, reg_systemId = S2,
                  schema = sch2, reg_createdAt = now2\<rparr>"
    by (simp add: getComponentRegistration_def e2(2,3))
  have t1: "getComponentType sha256hex name S1 (snd r2) = Some \<lparr>ct_id = id1, ct_name = h1\<rparr>"
    using assms(4,6) by (simp add: getComponentType_def getType_def e2(4) e1(4))
  have t2: "getComponentType sha256hex name S2 (snd r2) = Some \<lparr>ct_id = id2, ct_name = h2\<rparr>"
    using assms(5) by (simp add: getComponentType_def getType_def e2(4))
  have i1: "getComponentId name S1 (dynamicComponentRegistry (snd r2)) = Some id1"
    by (simp add: getComponentId_def g1)
  have i2: "getComponentId name S2 (dynamicComponentRegistry (snd r2)) = Some id2"
    by (simp add: getComponentId_def g2)
  show ?thesis
    apply (rule exI [of _ id1])
    apply (rule exI [of _ id2])
    apply (intro conjI)
            apply (rule ids)
           apply (rule e1(1))
          apply (rule e2(1))
         apply (rule g1)
        apply (rule g2)
       apply (rule i1)
      apply (rule i2)
     apply (rule t1)
    apply (rule t2)
    done
qed


theorem same_name_two_programs_witness:
  "\<exists>id1 id2. id1 \<noteq> id2
      \<and> fst (defineComponent toyDigest ''Position'' (schemaV 1) ''S1'' 0 emptyRegistries)
           = Inr (Some \<lparr>ct_id = id1, ct_name = ''S1:Position''\<rparr>)
      \<and> fst (defineComponent toyDigest ''Position'' (schemaV 3) ''S2'' 5
                (snd (defineComponent toyDigest ''Position'' (schemaV 1) ''S1'' 0 emptyRegistries)))
           = Inr (Some \<lparr>ct_id = id2, ct_name = ''S2:Position''\<rparr>)
      \<and> getComponentId ''Position'' ''S1'' (dynamicComponentRegistry
           (snd (defineComponent toyDigest ''Position'' (schemaV 3) ''S2'' 5
                (snd (defineComponent toyDigest ''Position'' (schemaV 1) ''S1'' 0 emptyRegistries)))))
           = Some id1
      \<and> getComponentId ''Position'' ''S2'' (dynamicComponentRegistry
           (snd (defineComponent toyDigest ''Position'' (schemaV 3) ''S2'' 5
                (snd (defineComponent toyDigest ''Position'' (schemaV 1) ''S1'' 0 emptyRegistries)))))
           = Some id2"
proof -
  have h1: "''S1:Position'' = createHashedId toyDigest ''S1'' ''Position''"
   and h2: "''S2:Position'' = createHashedId toyDigest ''S2'' ''Position''"
    by (simp_all add: createHashedId_def toyDigest_def)
  have ne: "''S1'' \<noteq> ''S2''" "''S1:Position'' \<noteq> ''S2:Position''" by simp_all
  have fresh:
    "map_of (hashedIdToRegistration (dynamicComponentRegistry emptyRegistries)) ''S1:Position'' = None"
    "map_of (hashedIdToRegistration (dynamicComponentRegistry emptyRegistries)) ''S2:Position'' = None"
    "map_of (components (componentRegistry emptyRegistries)) ''S1:Position'' = None"
    "map_of (components (componentRegistry emptyRegistries)) ''S2:Position'' = None"
    by (simp_all add: emptyRegistries_eq)
  have v: "(1::int) \<le> 1" "(1::int) \<le> 3" by simp_all
  note t = same_name_two_programs [OF ne(1) validateSchema_schemaV [OF v(1)]
      validateSchema_schemaV [OF v(2)] h1 h2 ne(2) fresh refl refl, of 0 5]
  from t obtain id1 id2 where c: "id1 \<noteq> id2
      \<and> fst (defineComponent toyDigest ''Position'' (schemaV 1) ''S1'' 0 emptyRegistries)
           = Inr (Some \<lparr>ct_id = id1, ct_name = ''S1:Position''\<rparr>)
      \<and> fst (defineComponent toyDigest ''Position'' (schemaV 3) ''S2'' 5
                (snd (defineComponent toyDigest ''Position'' (schemaV 1) ''S1'' 0 emptyRegistries)))
           = Inr (Some \<lparr>ct_id = id2, ct_name = ''S2:Position''\<rparr>)
      \<and> getComponentRegistration ''Position'' ''S1'' (dynamicComponentRegistry
           (snd (defineComponent toyDigest ''Position'' (schemaV 3) ''S2'' 5
                (snd (defineComponent toyDigest ''Position'' (schemaV 1) ''S1'' 0 emptyRegistries)))))
          = Some \<lparr>reg_id = id1, hashedId = ''S1:Position'', originalName = ''Position'',
                  reg_systemId = ''S1'', schema = schemaV 1, reg_createdAt = 0\<rparr>
      \<and> getComponentRegistration ''Position'' ''S2'' (dynamicComponentRegistry
           (snd (defineComponent toyDigest ''Position'' (schemaV 3) ''S2'' 5
                (snd (defineComponent toyDigest ''Position'' (schemaV 1) ''S1'' 0 emptyRegistries)))))
          = Some \<lparr>reg_id = id2, hashedId = ''S2:Position'', originalName = ''Position'',
                  reg_systemId = ''S2'', schema = schemaV 3, reg_createdAt = 5\<rparr>
      \<and> getComponentId ''Position'' ''S1'' (dynamicComponentRegistry
           (snd (defineComponent toyDigest ''Position'' (schemaV 3) ''S2'' 5
                (snd (defineComponent toyDigest ''Position'' (schemaV 1) ''S1'' 0 emptyRegistries)))))
           = Some id1
      \<and> getComponentId ''Position'' ''S2'' (dynamicComponentRegistry
           (snd (defineComponent toyDigest ''Position'' (schemaV 3) ''S2'' 5
                (snd (defineComponent toyDigest ''Position'' (schemaV 1) ''S1'' 0 emptyRegistries)))))
           = Some id2
      \<and> getComponentType toyDigest ''Position'' ''S1''
           (snd (defineComponent toyDigest ''Position'' (schemaV 3) ''S2'' 5
                (snd (defineComponent toyDigest ''Position'' (schemaV 1) ''S1'' 0 emptyRegistries))))
           = Some \<lparr>ct_id = id1, ct_name = ''S1:Position''\<rparr>
      \<and> getComponentType toyDigest ''Position'' ''S2''
           (snd (defineComponent toyDigest ''Position'' (schemaV 3) ''S2'' 5
                (snd (defineComponent toyDigest ''Position'' (schemaV 1) ''S1'' 0 emptyRegistries))))
           = Some \<lparr>ct_id = id2, ct_name = ''S2:Position''\<rparr>"
    by (elim exE) (rule that)
  show ?thesis
    apply (rule exI [of _ id1])
    apply (rule exI [of _ id2])
    using c apply (elim conjE)
    apply (intro conjI)
        apply assumption+
    done
qed

section \<open>Dynamic component registry: ids\<close>









lemma register_failed:
  assumes "fst (register name rs) = Inl e"
  shows "snd (register name rs) = rs"
proof (cases "map_of (components (componentRegistry rs)) name = None")
  case True
  then have "fst (register name rs) = Inr \<lparr>ct_id = nextId (componentRegistry rs), ct_name = name\<rparr>"
    by (simp add: register_def registerType_def Let_def)
  with assms show ?thesis by simp
next
  case False
  then show ?thesis by (simp add: register_def registerType_def)
qed





















section \<open>System loader: stages\<close>











section \<open>Enhanced system context: gas before access\<close>













end
